theory Spec2Isabelle
  imports Complex_Main
begin

section \<open>JSON values and JavaScript objects\<close>

text \<open>
  The services exchange JSON. One type serves for a JSON document, as a body carries
  it, and for the JavaScript value that the code holds. In a document a number is the
  rational that its decimal literal denotes; in a JavaScript value it is an IEEE 754
  double, again given by its exact rational value, or one of the two infinities, which
  no JSON literal denotes but which \<^verbatim>\<open>JSON.parse\<close> yields for a literal beyond the
  range of the doubles (\<open>JInfinity True\<close> is the negative one). An object is its list
  of properties in enumeration order. \<^verbatim>\<open>JSON.parse\<close> and \<^verbatim>\<open>JSON.stringify\<close>,
  defined below, lead from the one reading to the other.
\<close>

datatype json =
    JNull
  | JBool bool
  | JNum rat
  | JStr string
  | JArr "json list"
  | JObj "(string \<times> json) list"
  | JInfinity bool

type_synonym props = "(string \<times> json) list"

text \<open>
  Reading a property. A key that is bound twice in a property list denotes its last
  binding, which is how \<^verbatim>\<open>JSON.parse\<close> resolves a repeated key.
\<close>

definition lookup :: "props \<Rightarrow> string \<Rightarrow> json option" where
  "lookup kvs k = map_of (rev kvs) k"

fun field :: "json \<Rightarrow> string \<Rightarrow> json option" where
  "field (JObj kvs) k = lookup kvs k"
| "field _ k = None"

text \<open>
  Property keys that are array indices (canonical decimal strings below \<open>2^32 - 1\<close>) are
  enumerated first, in ascending numeric order; all other keys follow in the order in
  which they were created.
\<close>

definition is_digit :: "char \<Rightarrow> bool" where
  "is_digit c = (c \<in> set ''0123456789'')"

definition read_nat :: "string \<Rightarrow> nat" where
  "read_nat s = foldl (\<lambda>n c. 10 * n + (of_char c - 48)) 0 s"

definition is_array_index :: "string \<Rightarrow> bool" where
  "is_array_index k =
     (k \<noteq> [] \<and> list_all is_digit k \<and> (k = ''0'' \<or> hd k \<noteq> CHR ''0'')
      \<and> read_nat k < 4294967295)"

fun show_nat :: "nat \<Rightarrow> string" where
  "show_nat n =
     (if n < 10 then [''0123456789'' ! n]
      else show_nat (n div 10) @ [''0123456789'' ! (n mod 10)])"

declare show_nat.simps [simp del]

fun put_index :: "string \<Rightarrow> json \<Rightarrow> props \<Rightarrow> props" where
  "put_index k v [] = [(k, v)]"
| "put_index k v ((k', v') # kvs) =
     (if is_array_index k' \<and> read_nat k' < read_nat k
      then (k', v') # put_index k v kvs
      else (k, v) # (k', v') # kvs)"

text \<open>
  Defining a property of an object literal, or copying one into it: an existing key
  keeps its place and takes the new value, a new key is put at its place in the
  enumeration order.
\<close>

definition obj_set :: "string \<Rightarrow> json \<Rightarrow> props \<Rightarrow> props" where
  "obj_set k v kvs =
     (if k \<in> set (map fst kvs)
      then map (\<lambda>(k', v'). (k', if k' = k then v else v')) kvs
      else if is_array_index k then put_index k v kvs
      else kvs @ [(k, v)])"

text \<open>
  The own enumerable properties that the spread \<^verbatim>\<open>...payload\<close> copies: the
  properties of an object, the elements of an array under their indices, the
  characters of a string under their indices, and nothing for \<^verbatim>\<open>null\<close>, a
  boolean or a number.
\<close>

fun own_entries :: "json \<Rightarrow> props" where
  "own_entries (JObj kvs) = kvs"
| "own_entries (JArr xs) = zip (map show_nat [0..<length xs]) xs"
| "own_entries (JStr s) = zip (map show_nat [0..<length s]) (map (\<lambda>c. JStr [c]) s)"
| "own_entries _ = []"

definition spread :: "props \<Rightarrow> json \<Rightarrow> props" where
  "spread target src = foldl (\<lambda>acc (k, v). obj_set k v acc) target (own_entries src)"

section \<open>Numbers: from a decimal literal to a double and back\<close>

text \<open>
  \<open>magnitude b a\<close> is the exponent \<open>e\<close> with \<open>b^e \<le> a < b^(e+1)\<close> of a positive
  rational, read off the number of digits of an integer in base \<open>b\<close>.
\<close>

definition pow2 :: "int \<Rightarrow> rat" where
  "pow2 e = (if 0 \<le> e then 2 ^ nat e else 1 / 2 ^ nat (- e))"

definition pow10 :: "int \<Rightarrow> rat" where
  "pow10 e = (if 0 \<le> e then 10 ^ nat e else 1 / 10 ^ nat (- e))"

function digits :: "int \<Rightarrow> int \<Rightarrow> int" where
  "digits b n = (if n \<le> 0 \<or> b < 2 then 0 else 1 + digits b (n div b))"
  by pat_completeness auto
termination
  by (relation "measure (\<lambda>(b, n). nat n)")
     (auto simp add: pos_imp_zdiv_nonneg_iff intro!: int_div_less_self)

declare digits.simps [simp del]

definition magnitude :: "int \<Rightarrow> rat \<Rightarrow> int" where
  "magnitude b a =
     (if 1 \<le> a then digits b \<lfloor>a\<rfloor> - 1 else - digits b (\<lceil>1 / a\<rceil> - 1))"

text \<open>
  Reading a decimal literal as a number (\<^verbatim>\<open>JSON.parse\<close>, and so \<^verbatim>\<open>res.json()\<close>
  and \<^verbatim>\<open>express.json()\<close>): the nearest double, ties to the even significand. The
  doubles around a positive \<open>a\<close> are the multiples of \<open>ulp a\<close>: 53 significant bits,
  and the spacing \<open>2^-1074\<close> of the subnormal numbers at the least. A result of
  \<open>2^1024\<close> or more is infinite, here \<open>None\<close>.
\<close>

definition ties_to_even :: "int \<Rightarrow> rat \<Rightarrow> int" where
  "ties_to_even n f =
     (if f < 1 / 2 then n
      else if 1 / 2 < f then n + 1
      else if even n then n else n + 1)"

definition round_half_even :: "rat \<Rightarrow> int" where
  "round_half_even x = ties_to_even \<lfloor>x\<rfloor> (x - of_int \<lfloor>x\<rfloor>)"

definition round_to_multiple :: "rat \<Rightarrow> rat \<Rightarrow> rat" where
  "round_to_multiple u a = of_int (round_half_even (a / u)) * u"

definition ulp :: "rat \<Rightarrow> rat" where
  "ulp a = pow2 (max (magnitude 2 a) (- 1022) - 52)"

definition finite_double :: "rat \<Rightarrow> rat option" where
  "finite_double v = (if pow2 1024 \<le> v then None else Some v)"

definition nearest_double :: "rat \<Rightarrow> rat option" where
  "nearest_double a = finite_double (round_to_multiple (ulp a) a)"

definition to_double :: "rat \<Rightarrow> rat option" where
  "to_double x =
     (if x = 0 then Some 0
      else if 0 < x then nearest_double x
      else map_option uminus (nearest_double (- x)))"

text \<open>
  Printing a double (\<^verbatim>\<open>JSON.stringify\<close>, by \<^verbatim>\<open>Number.prototype.toString\<close>): the
  decimal with the fewest significant digits that reads back as the same double, and
  among those of that length the one nearest to the double, the even last digit on a
  tie. With \<open>k\<close> digits the decimals around \<open>d\<close> are the multiples of
  \<open>10^(n-k)\<close>, where \<open>10^(n-1) \<le> d < 10^n\<close>; its two neighbours among them are tried
  for \<open>k\<close> from 1 to 17, and 17 digits always suffice.
\<close>

definition reads_as :: "rat \<Rightarrow> rat \<Rightarrow> bool" where
  "reads_as d v = (nearest_double v = Some d)"

definition nearer_first :: "rat \<Rightarrow> rat \<Rightarrow> int \<Rightarrow> rat list" where
  "nearer_first d scale s =
     (if d - of_int s * scale < of_int (s + 1) * scale - d
        then [of_int s * scale, of_int (s + 1) * scale]
      else if of_int (s + 1) * scale - d < d - of_int s * scale
        then [of_int (s + 1) * scale, of_int s * scale]
      else if even s then [of_int s * scale, of_int (s + 1) * scale]
      else [of_int (s + 1) * scale, of_int s * scale])"

definition on_grid :: "rat \<Rightarrow> rat \<Rightarrow> rat list" where
  "on_grid d scale = filter (reads_as d) (nearer_first d scale \<lfloor>d / scale\<rfloor>)"

definition candidates :: "rat \<Rightarrow> int \<Rightarrow> rat list" where
  "candidates d k = on_grid d (pow10 (magnitude 10 d + 1 - k))"

fun shortest :: "rat \<Rightarrow> int list \<Rightarrow> rat" where
  "shortest d [] = d"
| "shortest d (k # ks) = (case candidates d k of v # _ \<Rightarrow> v | [] \<Rightarrow> shortest d ks)"

definition print_double :: "rat \<Rightarrow> rat" where
  "print_double d =
     (if d = 0 then 0
      else if 0 < d then shortest d [1, 2, 3, 4, 5, 6, 7, 8, 9, 10, 11, 12, 13, 14, 15, 16, 17]
      else - shortest (- d) [1, 2, 3, 4, 5, 6, 7, 8, 9, 10, 11, 12, 13, 14, 15, 16, 17])"

section \<open>Parsing and serialising\<close>

text \<open>
  \<^verbatim>\<open>JSON.parse\<close> on the document that a body text denotes: every number becomes a
  double or an infinity, and an object is built property by property, so that a
  repeated key keeps its place and takes the last value.
\<close>

fun JSON_parse :: "json \<Rightarrow> json" where
  "JSON_parse (JNum q) = (case to_double q of None \<Rightarrow> JInfinity (q < 0) | Some d \<Rightarrow> JNum d)"
| "JSON_parse (JArr xs) = JArr (map JSON_parse xs)"
| "JSON_parse (JObj kvs) =
     JObj (foldl (\<lambda>acc (k, v). obj_set k v acc) [] (map (\<lambda>(k, v). (k, JSON_parse v)) kvs))"
| "JSON_parse j = j"


section \<open>Bridge services\<close>

text \<open>
  The two bridge services (\<^verbatim>\<open>neural-bridge.js\<close> and the affiliate bridge) are the
  same program up to the route prefix, the metrics body, the confirmation message and
  the default port.
\<close>

datatype domain = Neural | Affiliate

datatype port = PortEnv string | PortDefault nat

record service =
  bridge :: domain
  port :: port
  activities :: "json list"

record clock =
  iso :: string   \<comment> \<open>\<^verbatim>\<open>new Date().toISOString()\<close>\<close>
  now :: int      \<comment> \<open>\<^verbatim>\<open>Date.now()\<close>\<close>

text \<open>
  A response made by \<^verbatim>\<open>res.json(x)\<close> or \<^verbatim>\<open>NextResponse.json(x)\<close>: its status and
  the JavaScript value \<open>x\<close> handed over; what goes out is \<^verbatim>\<open>JSON.stringify(x)\<close>.
\<close>

record http_response =
  status :: nat
  body :: json


text \<open>\<^verbatim>\<open>const PORT = process.env.PORT || 3003\<close> (3002 for the affiliate bridge).\<close>

definition default_port :: "domain \<Rightarrow> nat" where
  "default_port d = (case d of Neural \<Rightarrow> 3003 | Affiliate \<Rightarrow> 3002)"

definition PORT :: "string option \<Rightarrow> domain \<Rightarrow> port" where
  "PORT env d =
     (case env of
        None \<Rightarrow> PortDefault (default_port d)
      | Some p \<Rightarrow> if p = [] then PortDefault (default_port d) else PortEnv p)"

definition start :: "string option \<Rightarrow> domain \<Rightarrow> service" where
  "start env d = \<lparr>bridge = d, port = PORT env d, activities = []\<rparr>"

text \<open>
  \<^verbatim>\<open>{ type, ...payload, timestamp: Date.now() }\<close> with the default \<^verbatim>\<open>payload = {}\<close>
  taken when the argument is missing or \<^verbatim>\<open>undefined\<close>.
\<close>

definition mk_record :: "string \<Rightarrow> json option \<Rightarrow> int \<Rightarrow> json" where
  "mk_record type payload t =
     (let p = (case payload of None \<Rightarrow> JObj [] | Some b \<Rightarrow> b)
      in JObj (obj_set ''timestamp'' (JNum (of_int t))
                 (spread (obj_set ''type'' (JStr type) []) p)))"

text \<open>
  \<^verbatim>\<open>activities.unshift(...)\<close> followed by
  \<^verbatim>\<open>if (activities.length > 20) activities.length = 20\<close>.
\<close>

definition addActivity :: "string \<Rightarrow> json option \<Rightarrow> int \<Rightarrow> json list \<Rightarrow> json list" where
  "addActivity type payload t acts =
     (let acts' = mk_record type payload t # acts
      in if length acts' > 20 then take 20 acts' else acts')"

definition metrics_body :: "domain \<Rightarrow> string \<Rightarrow> json" where
  "metrics_body d ts =
     (case d of
        Neural \<Rightarrow> JObj
          [(''globalAnalysis'', JStr ''Processing 2.3M data points''),
           (''automationLevel'', JNum 87),
           (''marketTrends'', JArr
              [JObj [(''region'', JStr ''North America''), (''growth'', JNum 12.5),
                     (''status'', JStr ''bullish'')],
               JObj [(''region'', JStr ''Europe''), (''growth'', JNum 8.3),
                     (''status'', JStr ''stable'')],
               JObj [(''region'', JStr ''Asia Pacific''), (''growth'', JNum 15.7),
                     (''status'', JStr ''bullish'')]]),
           (''timestamp'', JStr ts)]
      | Affiliate \<Rightarrow> JObj
          [(''activeCampaigns'', JNum 12),
           (''conversionRate'', JNum 3.7),
           (''totalClicks'', JNum 15420),
           (''revenue'', JNum 8750.5),
           (''topPerformers'', JArr
              [JObj [(''name'', JStr ''Tech Products Campaign''), (''conversion'', JNum 4.2),
                     (''revenue'', JNum 3200)],
               JObj [(''name'', JStr ''Health & Wellness''), (''conversion'', JNum 3.8),
                     (''revenue'', JNum 2800)],
               JObj [(''name'', JStr ''Digital Services''), (''conversion'', JNum 3.1),
                     (''revenue'', JNum 2750)]]),
           (''timestamp'', JStr ts)])"

definition optimize_message :: "domain \<Rightarrow> string" where
  "optimize_message d =
     (case d of
        Neural \<Rightarrow> ''Neural optimization started!''
      | Affiliate \<Rightarrow> ''Affiliate optimization started!'')"

text \<open>
  The three route handlers, as the callbacks that they are: what each does with a
  request that has reached it, \<open>b\<close> being its \<^verbatim>\<open>req.body\<close>. \<^verbatim>\<open>res.json\<close> answers
  with status 200.
\<close>

definition get_metrics :: "clock \<Rightarrow> service \<Rightarrow> service \<times> http_response" where
  "get_metrics c s =
     (s\<lparr>activities := addActivity ''metrics-served'' None (now c) (activities s)\<rparr>,
      \<lparr>status = 200, body = metrics_body (bridge s) (iso c)\<rparr>)"

definition post_optimize :: "json option \<Rightarrow> clock \<Rightarrow> service \<Rightarrow> service \<times> http_response" where
  "post_optimize b c s =
     (s\<lparr>activities := addActivity ''optimize-triggered'' b (now c) (activities s)\<rparr>,
      \<lparr>status = 200,
       body = JObj [(''success'', JBool True), (''message'', JStr (optimize_message (bridge s)))]\<rparr>)"

definition get_activities :: "service \<Rightarrow> service \<times> http_response" where
  "get_activities s = (s, \<lparr>status = 200, body = JObj [(''activities'', JArr (activities s))]\<rparr>)"

text \<open>A request that has reached its handler, and a sequence of such requests.\<close>

datatype request = GetMetrics | PostOptimize "json option" | GetActivities

fun handle :: "service \<Rightarrow> request \<times> clock \<Rightarrow> service \<times> http_response" where
  "handle s (GetMetrics, c) = get_metrics c s"
| "handle s (PostOptimize b, c) = post_optimize b c s"
| "handle s (GetActivities, c) = get_activities s"

definition run :: "service \<Rightarrow> (request \<times> clock) list \<Rightarrow> service" where
  "run s rs = foldl (\<lambda>s r. fst (handle s r)) s rs"

text \<open>
  \<^verbatim>\<open>app.use(express.json())\<close> runs before every handler. What a request carries is
  no JSON body at all (no body, or a content type other than \<^verbatim>\<open>application/json\<close>),
  a body of that type beyond the size that the parser reads (100kb by default), a body
  that is not JSON, or a body within that size that is the text of a JSON document.
  The middleware leaves \<^verbatim>\<open>req.body\<close> unset in the first case (or sets an empty object,
  depending on its version; \<^verbatim>\<open>addActivity\<close> treats the two alike). It fails with
  status 413 on a body that is too large. It parses a document that is an object or an
  array, which is all that its default strict mode accepts, and it fails with status 400
  on anything else. A request on which it fails never reaches a handler, and Express
  answers with its error page.
\<close>

datatype content = NoJsonBody | TooLarge | Malformed | JsonText json

datatype reply = Reply http_response | ErrorPage nat

fun structured :: "json \<Rightarrow> bool" where
  "structured (JObj kvs) = True"
| "structured (JArr xs) = True"
| "structured j = False"

definition express_json :: "content \<Rightarrow> nat + json option" where
  "express_json ct =
     (case ct of
        NoJsonBody \<Rightarrow> Inr None
      | TooLarge \<Rightarrow> Inl 413
      | Malformed \<Rightarrow> Inl 400
      | JsonText doc \<Rightarrow> if structured doc then Inr (Some (JSON_parse doc)) else Inl 400)"

datatype endpoint = Metrics | Optimize | Activities

definition to_handler :: "endpoint \<Rightarrow> json option \<Rightarrow> request" where
  "to_handler ep b =
     (case ep of Metrics \<Rightarrow> GetMetrics | Optimize \<Rightarrow> PostOptimize b | Activities \<Rightarrow> GetActivities)"

definition serve :: "service \<Rightarrow> endpoint \<Rightarrow> content \<Rightarrow> clock \<Rightarrow> service \<times> reply" where
  "serve s ep ct c =
     (case express_json ct of
        Inl st \<Rightarrow> (s, ErrorPage st)
      | Inr b \<Rightarrow> (case handle s (to_handler ep b, c) of (s', r) \<Rightarrow> (s', Reply r)))"

section \<open>Outbound calls\<close>

text \<open>
  A thrown JavaScript error with its \<^verbatim>\<open>name\<close> and \<^verbatim>\<open>message\<close>. What
  \<^verbatim>\<open>await fetch(...)\<close> and then \<^verbatim>\<open>await res.json()\<close> can do: the fetch rejects (network
  failure), it never settles (no timeout is set anywhere), or it answers with a status
  and a body; reading the body with \<^verbatim>\<open>res.json()\<close> parses the JSON document that the
  text is, or rejects (the text is not JSON), or never settles either.
\<close>

datatype js_error = JsError (err_name: string) (message: string)

datatype body_result = BodyJson json | BodyError js_error | BodyNeverSettles

datatype fetch_result = Rejected js_error | Responded nat body_result | NeverSettles

datatype 'a outcome = Returns 'a | Throws js_error | Pending

text \<open>\<^verbatim>\<open>res.ok\<close>: the status is in the range 200 to 299.\<close>

definition ok :: "nat \<Rightarrow> bool" where
  "ok st = (200 \<le> st \<and> st \<le> 299)"

section \<open>Gateway router\<close>

datatype http_method = GET_method | POST_method

record outbound =
  out_url :: string
  out_method :: http_method
  out_body :: "string option"
  out_headers :: "(string \<times> string) list"

record next_request =
  searchParams :: "(string \<times> string) list"
  text_body :: string

record gateway_result =
  issued :: "outbound list"
  result :: "http_response outcome"

text \<open>\<^verbatim>\<open>const BACKEND_URL = process.env.BACKEND_URL || "http://localhost:8000"\<close>\<close>

definition BACKEND_URL :: "string option \<Rightarrow> string" where
  "BACKEND_URL env =
     (case env of
        None \<Rightarrow> ''http://localhost:8000''
      | Some u \<Rightarrow> if u = [] then ''http://localhost:8000'' else u)"

text \<open>\<^verbatim>\<open>searchParams.get(name)\<close>: the first value given for the name, or \<^verbatim>\<open>null\<close>.\<close>

definition searchParams_get :: "next_request \<Rightarrow> string \<Rightarrow> string option" where
  "searchParams_get req name = map_of (searchParams req) name"

definition no_target :: http_response where
  "no_target = \<lparr>status = 400, body = JObj [(''error'', JStr ''No target specified'')]\<rparr>"

text \<open>
  \<^verbatim>\<open>const data = await res.json(); return NextResponse.json(data)\<close>, after
  \<^verbatim>\<open>const res = await fetch(...)\<close>: the body is parsed and the value parsed is
  handed to the response. There is no \<^verbatim>\<open>try\<close> in either handler.
\<close>

definition relay :: "fetch_result \<Rightarrow> http_response outcome" where
  "relay r =
     (case r of
        Rejected e \<Rightarrow> Throws e
      | NeverSettles \<Rightarrow> Pending
      | Responded st b \<Rightarrow>
          (case b of
             BodyError e \<Rightarrow> Throws e
           | BodyNeverSettles \<Rightarrow> Pending
           | BodyJson doc \<Rightarrow> Returns \<lparr>status = 200, body = JSON_parse doc\<rparr>))"

definition GET :: "string option \<Rightarrow> (outbound \<Rightarrow> fetch_result) \<Rightarrow> next_request \<Rightarrow> gateway_result" where
  "GET env net req =
     (case searchParams_get req ''target'' of
        None \<Rightarrow> \<lparr>issued = [], result = Returns no_target\<rparr>
      | Some target \<Rightarrow>
          if target = [] then \<lparr>issued = [], result = Returns no_target\<rparr>
          else
            let url = BACKEND_URL env @ ''/'' @ target;
                call = \<lparr>out_url = url, out_method = GET_method, out_body = None,
                        out_headers = []\<rparr>
            in \<lparr>issued = [call], result = relay (net call)\<rparr>)"

definition POST :: "string option \<Rightarrow> (outbound \<Rightarrow> fetch_result) \<Rightarrow> next_request \<Rightarrow> gateway_result" where
  "POST env net req =
     (case searchParams_get req ''target'' of
        None \<Rightarrow> \<lparr>issued = [], result = Returns no_target\<rparr>
      | Some target \<Rightarrow>
          if target = [] then \<lparr>issued = [], result = Returns no_target\<rparr>
          else
            let url = BACKEND_URL env @ ''/'' @ target;
                call = \<lparr>out_url = url, out_method = POST_method,
                        out_body = Some (text_body req),
                        out_headers = [(''Content-Type'', ''application/json'')]\<rparr>
            in \<lparr>issued = [call], result = relay (net call)\<rparr>)"

section \<open>Client fetch adapter\<close>

text \<open>
  The three \<^verbatim>\<open>useState\<close> cells of \<^verbatim>\<open>useUniversalFetcher\<close>; \<^verbatim>\<open>null\<close> is
  \<open>None\<close> for the error and \<open>JNull\<close> for the data.
\<close>

record fetcher =
  loading :: bool
  error :: "string option"
  data :: json

definition useState_init :: fetcher where
  "useState_init = \<lparr>loading = False, error = None, data = JNull\<rparr>"

text \<open>
  The \<^verbatim>\<open>target\<close> is a JavaScript string: a sequence of UTF-16 code units, numbers
  below \<open>2^16\<close>. \<^verbatim>\<open>encodeURIComponent\<close> keeps the unreserved characters and replaces
  every other code point by the \<^verbatim>\<open>%XX\<close> of its UTF-8 bytes. A code point outside the
  basic plane is a high surrogate followed by a low one; on a surrogate that is not
  part of such a pair the function throws a \<^verbatim>\<open>URIError\<close>. The message of that
  error is worded by the engine; it is given here as V8 words it.
\<close>

type_synonym js_string = "nat list"

definition unreserved :: "nat \<Rightarrow> char option" where
  "unreserved c =
     find (\<lambda>ch. of_char ch = c)
       (''ABCDEFGHIJKLMNOPQRSTUVWXYZabcdefghijklmnopqrstuvwxyz0123456789-_.!~*()''
        @ [CHR 0x27])"

definition hex_digit :: "nat \<Rightarrow> char" where
  "hex_digit n = ''0123456789ABCDEF'' ! n"

definition percent :: "nat \<Rightarrow> string" where
  "percent b = [CHR ''%'', hex_digit (b div 16), hex_digit (b mod 16)]"

definition utf8 :: "nat \<Rightarrow> nat list" where
  "utf8 cp =
     (if cp < 0x80 then [cp]
      else if cp < 0x800 then [0xC0 + cp div 64, 0x80 + cp mod 64]
      else if cp < 0x10000 then
        [0xE0 + cp div 4096, 0x80 + cp div 64 mod 64, 0x80 + cp mod 64]
      else [0xF0 + cp div 262144, 0x80 + cp div 4096 mod 64, 0x80 + cp div 64 mod 64,
            0x80 + cp mod 64])"

definition escaped :: "nat \<Rightarrow> string" where
  "escaped cp = concat (map percent (utf8 cp))"

definition URIError :: js_error where
  "URIError = JsError ''URIError'' ''URI malformed''"

definition followed_by :: "string \<Rightarrow> js_error + string \<Rightarrow> js_error + string" where
  "followed_by s r = (case r of Inl e \<Rightarrow> Inl e | Inr t \<Rightarrow> Inr (s @ t))"

fun encodeURIComponent :: "js_string \<Rightarrow> js_error + string" where
  "encodeURIComponent [] = Inr []"
| "encodeURIComponent (c # cs) =
     (case unreserved c of
        Some ch \<Rightarrow> followed_by [ch] (encodeURIComponent cs)
      | None \<Rightarrow>
          if 0xDC00 \<le> c \<and> c \<le> 0xDFFF then Inl URIError
          else if 0xD800 \<le> c \<and> c \<le> 0xDBFF then
            (case cs of
               [] \<Rightarrow> Inl URIError
             | c' # cs' \<Rightarrow>
                 if 0xDC00 \<le> c' \<and> c' \<le> 0xDFFF
                 then followed_by (escaped (0x10000 + (c - 0xD800) * 0x400 + (c' - 0xDC00)))
                        (encodeURIComponent cs')
                 else Inl URIError)
          else followed_by (escaped c) (encodeURIComponent cs))"

text \<open>
  The body of the \<^verbatim>\<open>try\<close>: the state it leaves and how it ends. The URL is built
  first, inside the \<^verbatim>\<open>try\<close>, and no call is made when that throws. The call to
  the network takes the URL and the caller's \<^verbatim>\<open>opts\<close>, passed through as they are.
\<close>

definition try_block ::
  "(string \<Rightarrow> 'o option \<Rightarrow> fetch_result) \<Rightarrow> js_string \<Rightarrow> 'o option \<Rightarrow> fetcher
     \<Rightarrow> fetcher \<times> json outcome" where
  "try_block net target opts s =
     (case encodeURIComponent target of
        Inl e \<Rightarrow> (s, Throws e)
      | Inr enc \<Rightarrow>
          (case net (''/api/universal?target='' @ enc) opts of
             Rejected e \<Rightarrow> (s, Throws e)
           | NeverSettles \<Rightarrow> (s, Pending)
           | Responded st b \<Rightarrow>
               if \<not> ok st then (s, Throws (JsError ''Error'' ''API error''))
               else (case b of
                       BodyError e \<Rightarrow> (s, Throws e)
                     | BodyNeverSettles \<Rightarrow> (s, Pending)
                     | BodyJson doc \<Rightarrow>
                         (s\<lparr>data := JSON_parse doc\<rparr>, Returns (JSON_parse doc)))))"

text \<open>
  \<^verbatim>\<open>fetchUniversal\<close>: the three resets, the \<^verbatim>\<open>try\<close>, the \<^verbatim>\<open>catch\<close>
  (\<^verbatim>\<open>setError(e.message); throw e\<close>) and the \<^verbatim>\<open>finally\<close>
  (\<^verbatim>\<open>setLoading(false)\<close>), which runs once the \<^verbatim>\<open>try\<close> has ended.
\<close>

definition fetchUniversal ::
  "(string \<Rightarrow> 'o option \<Rightarrow> fetch_result) \<Rightarrow> js_string \<Rightarrow> 'o option \<Rightarrow> fetcher
     \<Rightarrow> fetcher \<times> json outcome" where
  "fetchUniversal net target opts s =
     (let s1 = s\<lparr>loading := True, error := None, data := JNull\<rparr>
      in case try_block net target opts s1 of
           (s2, Pending) \<Rightarrow> (s2, Pending)
         | (s2, Returns json) \<Rightarrow> (s2\<lparr>loading := False\<rparr>, Returns json)
         | (s2, Throws e) \<Rightarrow> (s2\<lparr>error := Some (message e), loading := False\<rparr>, Throws e))"

section \<open>The history of a service\<close>

text \<open>
  The records that a sequence of handled requests creates, oldest first. It is the
  reference against which the content and the order of the activity log are stated:
  \<^verbatim>\<open>GET /metrics\<close> and \<^verbatim>\<open>POST /optimize\<close> create one record each,
  \<^verbatim>\<open>GET /activities\<close> creates none.
\<close>

fun history :: "(request \<times> clock) list \<Rightarrow> json list" where
  "history [] = []"
| "history ((GetMetrics, c) # rs) = mk_record ''metrics-served'' None (now c) # history rs"
| "history ((PostOptimize b, c) # rs) = mk_record ''optimize-triggered'' b (now c) # history rs"
| "history ((GetActivities, c) # rs) = history rs"

section \<open>Example inputs\<close>

definition ex_request :: next_request where
  "ex_request = \<lparr>searchParams = [(''target'', ''neural/metrics'')], text_body = ''[1,2]''\<rparr>"

definition ex_no_target :: next_request where
  "ex_no_target = \<lparr>searchParams = [(''target'', '''')], text_body = ''''\<rparr>"

definition net_500 :: "outbound \<Rightarrow> fetch_result" where
  "net_500 call = Responded 500 (BodyJson (JObj [(''detail'', JStr ''boom'')]))"


definition net_down :: "outbound \<Rightarrow> fetch_result" where
  "net_down call = Rejected (JsError ''TypeError'' ''fetch failed'')"

definition browser_500 :: "string \<Rightarrow> unit option \<Rightarrow> fetch_result" where
  "browser_500 url opts = Responded 500 (BodyJson (JObj [(''detail'', JStr ''boom'')]))"

definition browser_bad_json :: "string \<Rightarrow> unit option \<Rightarrow> fetch_result" where
  "browser_bad_json url opts =
     Responded 200 (BodyError (JsError ''SyntaxError'' ''Unexpected end of JSON input''))"

definition browser_hung :: "string \<Rightarrow> unit option \<Rightarrow> fetch_result" where
  "browser_hung url opts = NeverSettles"

definition browser_ok :: "string \<Rightarrow> unit option \<Rightarrow> fetch_result" where
  "browser_ok url opts = Responded 200 (BodyJson (JObj [(''success'', JBool True)]))"

definition ex_target :: js_string where
  "ex_target = map of_char ''neural/metrics''"

definition ex_lone_surrogate :: js_string where
  "ex_lone_surrogate = [0xD800]"

definition ex_clock :: clock where
  "ex_clock = \<lparr>iso = ''2025-07-20T18:40:19.777Z'', now = 1753036819777\<rparr>"

definition ex_ticks :: "clock list" where
  "ex_ticks = map (\<lambda>n. \<lparr>iso = ''2025-07-20T18:40:19.777Z'', now = 1753036819000 + int n\<rparr>) [0..<25]"

definition ex_foo :: json where
  "ex_foo = JObj [(''foo'', JNum 1)]"

definition ex_campaign :: json where
  "ex_campaign = JObj [(''campaign'', JStr ''X'')]"

definition ex_payload :: json where
  "ex_payload = JObj [(''payload'', JNum 1)]"

definition ex_override :: json where
  "ex_override = JObj [(''type'', JStr ''mine''), (''timestamp'', JNum 7)]"

definition ex_full_log :: "json list" where
  "ex_full_log =
     map (\<lambda>n. JObj [(''type'', JStr ''metrics-served''), (''timestamp'', JNum (of_nat n))])
         (rev [0..<20])"

section \<open>Properties of objects and of the activity log\<close>

lemma lookup_Nil: "lookup [] k = None"
  by (simp add: lookup_def)

lemma lookup_Cons:
  "lookup ((a, b) # kvs) k =
     (case lookup kvs k of None \<Rightarrow> (if k = a then Some b else None) | Some v \<Rightarrow> Some v)"
  by (simp add: lookup_def map_add_def split: option.splits)

lemma lookup_snoc: "lookup (kvs @ [(a, b)]) k = (if k = a then Some b else lookup kvs k)"
  by (simp add: lookup_def)

lemma lookup_absent: "k \<notin> set (map fst kvs) \<Longrightarrow> lookup kvs k = None"
  by (simp add: lookup_def map_of_eq_None_iff)

lemma map_of_overwrite:
  "map_of (map (\<lambda>(k', v'). (k', if k' = k then v else v')) xs) j =
     (if j = k then map_option (\<lambda>_. v) (map_of xs k) else map_of xs j)"
  by (induction xs) auto

lemma lookup_overwrite:
  "k \<in> set (map fst kvs) \<Longrightarrow>
   lookup (map (\<lambda>(k', v'). (k', if k' = k then v else v')) kvs) j =
     (if j = k then Some v else lookup kvs j)"
proof -
  assume "k \<in> set (map fst kvs)"
  then have "map_of (rev kvs) k \<noteq> None"
    by (simp add: map_of_eq_None_iff)
  then obtain y where "map_of (rev kvs) k = Some y" by blast
  then show ?thesis
    using map_of_overwrite [of k v "rev kvs" j] by (simp add: lookup_def rev_map)
qed

lemma lookup_put_index:
  "k \<notin> set (map fst kvs) \<Longrightarrow>
   lookup (put_index k v kvs) j = (if j = k then Some v else lookup kvs j)"
proof (induction kvs arbitrary: j)
  case Nil
  show ?case by (simp add: lookup_Cons lookup_Nil)
next
  case (Cons p kvs)
  obtain a b where p: "p = (a, b)" by (cases p)
  from Cons.prems p have fresh: "k \<noteq> a" "k \<notin> set (map fst kvs)" by auto
  from fresh(2) have none: "lookup kvs k = None" by (rule lookup_absent)
  show ?case
    using Cons.IH [OF fresh(2)] fresh(1) none
    by (simp add: p lookup_Cons split: option.splits)
qed

lemma lookup_obj_set: "lookup (obj_set k v kvs) j = (if j = k then Some v else lookup kvs j)"
  by (simp add: obj_set_def lookup_overwrite lookup_put_index lookup_snoc)

lemma lookup_copy:
  "lookup (foldl (\<lambda>acc (k, v). obj_set k v acc) target src) j =
     (case lookup src j of Some v \<Rightarrow> Some v | None \<Rightarrow> lookup target j)"
proof (induction src arbitrary: target)
  case Nil
  show ?case by (simp add: lookup_Nil)
next
  case (Cons p src)
  obtain a b where p: "p = (a, b)" by (cases p)
  show ?case
    by (simp add: p Cons.IH lookup_obj_set lookup_Cons split: option.splits)
qed

lemma lookup_spread:
  "lookup (spread target src) j =
     (case lookup (own_entries src) j of Some v \<Rightarrow> Some v | None \<Rightarrow> lookup target j)"
  by (simp add: spread_def lookup_copy)

lemma lookup_map_values:
  "lookup (map (\<lambda>(k, v). (k, f v)) kvs) j = map_option f (lookup kvs j)"
  by (simp add: lookup_def rev_map map_of_map)

lemma lookup_from_entries:
  "lookup (foldl (\<lambda>acc (k, v). obj_set k v acc) [] kvs) j = lookup kvs j"
  by (simp add: lookup_copy lookup_Nil split: option.splits)

text \<open>
  Parsing an object or an array keeps its properties, each with its value parsed.
\<close>

lemma own_entries_parse:
  "structured B \<Longrightarrow>
   lookup (own_entries (JSON_parse B)) j = map_option JSON_parse (lookup (own_entries B) j)"
proof (cases B)
  case (JObj kvs)
  then show ?thesis
    by (simp add: lookup_from_entries lookup_map_values)
next
  case (JArr xs)
  have "zip (map show_nat [0..<length xs]) (map JSON_parse xs) =
          map (\<lambda>(k, v). (k, JSON_parse v)) (zip (map show_nat [0..<length xs]) xs)"
    by (rule zip_map2)
  then show ?thesis
    using JArr by (simp add: lookup_map_values)
qed simp_all


text \<open>
  The fields of a record built by \<^verbatim>\<open>{ type, ...payload, timestamp }\<close>: the time
  stamp wins over everything, the properties of the payload win over \<open>type\<close>.
\<close>

lemma field_mk_record:
  "field (mk_record type (Some B) t) k =
     (if k = ''timestamp'' then Some (JNum (of_int t))
      else case lookup (own_entries B) k of
             Some v \<Rightarrow> Some v
           | None \<Rightarrow> if k = ''type'' then Some (JStr type) else None)"
  by (simp add: mk_record_def lookup_obj_set lookup_spread lookup_Nil split: option.splits)

lemma mk_record_no_payload:
  "mk_record type None t = JObj [(''type'', JStr type), (''timestamp'', JNum (of_int t))]"
  by (simp add: mk_record_def spread_def obj_set_def is_array_index_def is_digit_def)

lemmas eval_record =
  mk_record_def spread_def obj_set_def is_array_index_def is_digit_def lookup_def

text \<open>
  The two statements of \<^verbatim>\<open>addActivity\<close> together keep the first twenty entries
  of the extended log.
\<close>

lemma addActivity_take:
  "addActivity type payload t acts = take 20 (mk_record type payload t # acts)"
  by (simp add: addActivity_def Let_def)

lemma take_append_take: "take n (xs @ take n ys) = take n (xs @ ys)"
  by (simp add: min_def)

lemma activities_handle:
  "length (activities s) \<le> 20 \<Longrightarrow>
   activities (fst (handle s r)) = take 20 (rev (history [r]) @ activities s)"
proof -
  assume le: "length (activities s) \<le> 20"
  obtain q c where r: "r = (q, c)" by (cases r)
  show ?thesis
    using le
    by (cases q) (simp_all add: r get_metrics_def post_optimize_def get_activities_def addActivity_take)
qed

lemma history_append: "history (rs @ rs') = history rs @ history rs'"
  by (induction rs rule: history.induct) simp_all

text \<open>
  After any sequence of requests the log holds the newest records of the history and
  what is left of the log the service started from.
\<close>

lemma activities_run:
  "length (activities s) \<le> 20 \<Longrightarrow>
   activities (run s rs) = take 20 (rev (history rs) @ activities s)"
proof (induction rs arbitrary: s)
  case Nil
  then show ?case by (simp add: run_def)
next
  case (Cons r rs)
  let ?s' = "fst (handle s r)"
  have step: "activities ?s' = take 20 (rev (history [r]) @ activities s)"
    using Cons.prems by (rule activities_handle)
  then have "length (activities ?s') \<le> 20" by simp
  then have ih: "activities (run ?s' rs) = take 20 (rev (history rs) @ activities ?s')"
    by (rule Cons.IH)
  have unfold: "run s (r # rs) = run ?s' rs" by (simp add: run_def)
  have split: "history (r # rs) = history [r] @ history rs"
    using history_append [of "[r]" rs] by simp
  have "activities (run s (r # rs)) =
          take 20 (rev (history rs) @ take 20 (rev (history [r]) @ activities s))"
    by (simp only: unfold ih step)
  also have "\<dots> = take 20 (rev (history rs) @ rev (history [r]) @ activities s)"
    by (rule take_append_take)
  also have "\<dots> = take 20 (rev (history (r # rs)) @ activities s)"
    by (simp only: split rev_append append_assoc)
  finally show ?case .
qed

lemma history_metrics:
  "history (map (Pair GetMetrics) cs) = map (\<lambda>c. mk_record ''metrics-served'' None (now c)) cs"
  by (induction cs) simp_all

section \<open>Evaluating the number conversions\<close>

lemma floor_rat_numeral_div: "\<lfloor>numeral a / numeral b :: rat\<rfloor> = numeral a div numeral b"
  using floor_divide_of_int_eq [of "numeral a" "numeral b", where ?'a = rat] by simp

lemma floor_rat_one_div: "\<lfloor>1 / numeral b :: rat\<rfloor> = 1 div numeral b"
  using floor_divide_of_int_eq [of 1 "numeral b", where ?'a = rat] by simp

lemma ceiling_rat_numeral_div:
  "\<lceil>numeral a / numeral b :: rat\<rceil> = - (- numeral a div numeral b)"
  using ceiling_divide_eq_div [of "numeral a" "numeral b", where ?'a = rat] by simp

lemmas eval_number =
  pow2_def pow10_def digits.simps magnitude_def round_half_even_def ties_to_even_def
  round_to_multiple_def ulp_def finite_double_def nearest_double_def to_double_def
  candidates_def print_double_def reads_as_def nearer_first_def on_grid_def
  floor_rat_numeral_div floor_rat_one_div ceiling_rat_numeral_div

lemma to_double_one: "to_double 1 = Some 1"
  by (simp add: eval_number)





section \<open>Properties of the fetch adapter\<close>

text \<open>
  \<^verbatim>\<open>encodeURIComponent\<close> throws nothing but its \<^verbatim>\<open>URIError\<close>.
\<close>

lemma followed_by_Inl: "followed_by s r = Inl e \<Longrightarrow> r = Inl e"
  by (cases r) (simp_all add: followed_by_def)

lemma encodeURIComponent_error: "encodeURIComponent t = Inl e \<Longrightarrow> e = URIError"
proof (induction t arbitrary: e rule: encodeURIComponent.induct)
  case 1
  then show ?case by simp
next
  case (2 c cs)
  from "2.prems" "2.IH" show ?case
    by (auto split: option.splits if_splits list.splits dest!: followed_by_Inl)
qed

text \<open>\<^verbatim>\<open>fetchUniversal\<close> on each way the \<^verbatim>\<open>try\<close> can end.\<close>

lemma fetchUniversal_URIError:
  "encodeURIComponent target = Inl e \<Longrightarrow>
   fetchUniversal net target opts s =
     (s\<lparr>loading := False, error := Some (message e), data := JNull\<rparr>, Throws e)"
  by (simp add: fetchUniversal_def try_block_def Let_def)

lemma fetchUniversal_Rejected:
  "encodeURIComponent target = Inr enc \<Longrightarrow>
   net (''/api/universal?target='' @ enc) opts = Rejected e \<Longrightarrow>
   fetchUniversal net target opts s =
     (s\<lparr>loading := False, error := Some (message e), data := JNull\<rparr>, Throws e)"
  by (simp add: fetchUniversal_def try_block_def Let_def)

lemma fetchUniversal_NeverSettles:
  "encodeURIComponent target = Inr enc \<Longrightarrow>
   net (''/api/universal?target='' @ enc) opts = NeverSettles \<Longrightarrow>
   fetchUniversal net target opts s =
     (s\<lparr>loading := True, error := None, data := JNull\<rparr>, Pending)"
  by (simp add: fetchUniversal_def try_block_def Let_def)

lemma fetchUniversal_not_ok:
  "encodeURIComponent target = Inr enc \<Longrightarrow>
   net (''/api/universal?target='' @ enc) opts = Responded st b \<Longrightarrow> \<not> ok st \<Longrightarrow>
   fetchUniversal net target opts s =
     (s\<lparr>loading := False, error := Some ''API error'', data := JNull\<rparr>,
      Throws (JsError ''Error'' ''API error''))"
  by (simp add: fetchUniversal_def try_block_def Let_def)

lemma fetchUniversal_BodyError:
  "encodeURIComponent target = Inr enc \<Longrightarrow>
   net (''/api/universal?target='' @ enc) opts = Responded st (BodyError e) \<Longrightarrow> ok st \<Longrightarrow>
   fetchUniversal net target opts s =
     (s\<lparr>loading := False, error := Some (message e), data := JNull\<rparr>, Throws e)"
  by (simp add: fetchUniversal_def try_block_def Let_def)

lemma fetchUniversal_BodyJson:
  "encodeURIComponent target = Inr enc \<Longrightarrow>
   net (''/api/universal?target='' @ enc) opts = Responded st (BodyJson doc) \<Longrightarrow> ok st \<Longrightarrow>
   fetchUniversal net target opts s =
     (s\<lparr>loading := False, error := None, data := JSON_parse doc\<rparr>, Returns (JSON_parse doc))"
  by (simp add: fetchUniversal_def try_block_def Let_def)

lemma fetchUniversal_BodyNeverSettles:
  "encodeURIComponent target = Inr enc \<Longrightarrow>
   net (''/api/universal?target='' @ enc) opts = Responded st BodyNeverSettles \<Longrightarrow> ok st \<Longrightarrow>
   fetchUniversal net target opts s =
     (s\<lparr>loading := True, error := None, data := JNull\<rparr>, Pending)"
  by (simp add: fetchUniversal_def try_block_def Let_def)

lemmas fetchUniversal_eqs =
  fetchUniversal_URIError fetchUniversal_Rejected fetchUniversal_NeverSettles
  fetchUniversal_not_ok fetchUniversal_BodyError fetchUniversal_BodyJson
  fetchUniversal_BodyNeverSettles

lemmas eval_encode =
  encodeURIComponent.simps unreserved_def followed_by_def escaped_def utf8_def percent_def
  hex_digit_def URIError_def

lemma encode_ex_target: "encodeURIComponent ex_target = Inr ''neural%2Fmetrics''"
  by (simp add: ex_target_def eval_encode)

lemma encode_ex_lone_surrogate: "encodeURIComponent ex_lone_surrogate = Inl URIError"
  by (simp add: ex_lone_surrogate_def eval_encode)

section \<open>Gateway router: claims C1, C2, C3\<close>




text \<open>
  Claim C2. For every request, \<^verbatim>\<open>GET\<close> or \<^verbatim>\<open>POST\<close>, whose \<^verbatim>\<open>target\<close>
  parameter is absent or empty, the gateway answers with status 400 and the body
  \<^verbatim>\<open>{ error: "No target specified" }\<close>, and issues no outbound call.
\<close>

theorem gateway_missing_target:
  assumes "searchParams_get req ''target'' = None \<or> searchParams_get req ''target'' = Some []"
  shows "GET env net req =
           \<lparr>issued = [],
            result = Returns \<lparr>status = 400, body = JObj [(''error'', JStr ''No target specified'')]\<rparr>\<rparr>
         \<and> POST env net req =
           \<lparr>issued = [],
            result = Returns \<lparr>status = 400, body = JObj [(''error'', JStr ''No target specified'')]\<rparr>\<rparr>"
  using assms by (auto simp add: GET_def POST_def no_target_def)

text \<open>
  C2 at a request with an empty \<^verbatim>\<open>target\<close>.
\<close>

theorem gateway_missing_target_witness:
  "searchParams_get ex_no_target ''target'' = Some []
   \<and> issued (GET None net_500 ex_no_target) = []
   \<and> result (POST None net_500 ex_no_target) =
       Returns \<lparr>status = 400, body = JObj [(''error'', JStr ''No target specified'')]\<rparr>"
  using gateway_missing_target [of ex_no_target None net_500]
  by (simp add: searchParams_get_def ex_no_target_def)

text \<open>
  Claim C3 says that a handler catches a failing upstream call and returns a structured
  error response. Neither handler has a \<^verbatim>\<open>try\<close>: with the upstream unreachable,
  the \<^verbatim>\<open>GET\<close> handler makes its one outbound call and then ends by throwing the
  error of the fetch; it returns no response.
\<close>

theorem gateway_catches_counterexample:
  "result (GET None net_down ex_request) = Throws (JsError ''TypeError'' ''fetch failed'')
   \<and> issued (GET None net_down ex_request) =
       [\<lparr>out_url = ''http://localhost:8000/neural/metrics'', out_method = GET_method,
         out_body = None, out_headers = []\<rparr>]"
  by (simp add: GET_def relay_def searchParams_get_def ex_request_def net_down_def BACKEND_URL_def)

text \<open>
  Claim C3, as the handlers behave. For every request with a non-empty target, if the
  outbound call rejects with an error \<open>e\<close>, or answers with a body on which
  \<^verbatim>\<open>res.json()\<close> rejects with \<open>e\<close>, then the handler, \<^verbatim>\<open>GET\<close> or
  \<^verbatim>\<open>POST\<close>, does not catch it: the handler ends by throwing \<open>e\<close> itself and
  returns no response.
\<close>

theorem gateway_upstream_error_escapes:
  assumes "searchParams_get req ''target'' = Some X" and "X \<noteq> []"
    and "r = Rejected e \<or> (\<exists>st. r = Responded st (BodyError e))"
  shows "(net \<lparr>out_url = BACKEND_URL env @ ''/'' @ X, out_method = GET_method,
               out_body = None, out_headers = []\<rparr> = r
          \<longrightarrow> result (GET env net req) = Throws e)
       \<and> (net \<lparr>out_url = BACKEND_URL env @ ''/'' @ X, out_method = POST_method,
               out_body = Some (text_body req),
               out_headers = [(''Content-Type'', ''application/json'')]\<rparr> = r
          \<longrightarrow> result (POST env net req) = Throws e)"
  using assms by (auto simp add: GET_def POST_def relay_def Let_def)

text \<open>
  The same at a request for \<^verbatim>\<open>neural/metrics\<close> with the upstream unreachable.
\<close>

theorem gateway_upstream_error_escapes_witness:
  "searchParams_get ex_request ''target'' = Some ''neural/metrics''
   \<and> result (GET None net_down ex_request) = Throws (JsError ''TypeError'' ''fetch failed'')
   \<and> result (POST None net_down ex_request) = Throws (JsError ''TypeError'' ''fetch failed'')"
  using gateway_upstream_error_escapes
    [of ex_request "''neural/metrics''" "Rejected (JsError ''TypeError'' ''fetch failed'')"
        "JsError ''TypeError'' ''fetch failed''" net_down None]
  by (simp add: searchParams_get_def ex_request_def net_down_def)

section \<open>Bridge services: claims C4, C5, C6, C9\<close>

text \<open>
  Claim C4. After every sequence of handled requests on a freshly started service the
  activity log has at most 20 records (and \<^verbatim>\<open>addActivity\<close> never leaves more than
  20); an insertion into a log of 20 puts the new record first and drops only the last,
  oldest one; and after exactly 25 \<^verbatim>\<open>GET /metrics\<close> calls on a fresh service
  \<^verbatim>\<open>GET /activities\<close> returns exactly 20 records, those of the calls 6 to 25, newest
  first, the records of the first 5 calls being gone.
\<close>

theorem activity_log_bounded:
  "length (activities (run (start env d) rs)) \<le> 20
   \<and> length (addActivity type payload t acts) \<le> 20
   \<and> (length acts = 20 \<longrightarrow>
        addActivity type payload t acts = mk_record type payload t # butlast acts)
   \<and> (length cs = 25 \<longrightarrow>
        snd (handle (run (start env d) (map (Pair GetMetrics) cs)) (GetActivities, c)) =
          \<lparr>status = 200,
           body = JObj [(''activities'',
                         JArr (map (\<lambda>c. JObj [(''type'', JStr ''metrics-served''),
                                               (''timestamp'', JNum (of_int (now c)))])
                                   (rev (drop 5 cs))))]\<rparr>
        \<and> length (rev (drop 5 cs)) = 20)"
proof -
  have fresh: "length (activities (start env d)) \<le> 20"
    by (simp add: start_def)
  have a: "length (activities (run (start env d) rs)) \<le> 20"
    by (simp add: activities_run [OF fresh])
  have b: "length (addActivity type payload t acts) \<le> 20"
    by (simp add: addActivity_take)
  have c: "addActivity type payload t acts = mk_record type payload t # butlast acts"
    if "length acts = 20"
    using that by (simp add: addActivity_take butlast_conv_take)
  have d: "snd (handle (run (start env d) (map (Pair GetMetrics) cs)) (GetActivities, c)) =
          \<lparr>status = 200,
           body = JObj [(''activities'',
                         JArr (map (\<lambda>c. JObj [(''type'', JStr ''metrics-served''),
                                               (''timestamp'', JNum (of_int (now c)))])
                                   (rev (drop 5 cs))))]\<rparr>"
    if len: "length cs = 25"
  proof -
    have newest: "take 20 (rev cs) = rev (drop 5 cs)"
      using len by (simp add: take_rev)
    have "activities (run (start env d) (map (Pair GetMetrics) cs)) =
            take 20 (rev (history (map (Pair GetMetrics) cs)) @ activities (start env d))"
      using fresh by (rule activities_run)
    also have "\<dots> = take 20 (map (\<lambda>c. mk_record ''metrics-served'' None (now c)) (rev cs))"
      by (simp add: history_metrics rev_map start_def)
    also have "\<dots> = map (\<lambda>c. mk_record ''metrics-served'' None (now c)) (rev (drop 5 cs))"
      by (simp only: take_map newest)
    finally have "activities (run (start env d) (map (Pair GetMetrics) cs)) =
                 map (\<lambda>c. mk_record ''metrics-served'' None (now c)) (rev (drop 5 cs))" .
    then show ?thesis
      by (simp add: get_activities_def mk_record_no_payload)
  qed
  show ?thesis using a b c d by simp
qed

text \<open>
  C4 at 25 metrics calls with distinct clock readings, and at an insertion into a log
  of 20 records.
\<close>

theorem activity_log_bounded_witness:
  "length ex_ticks = 25
   \<and> length ex_full_log = 20
   \<and> addActivity ''metrics-served'' None 20 ex_full_log =
       JObj [(''type'', JStr ''metrics-served''), (''timestamp'', JNum 20)] # butlast ex_full_log
   \<and> length (activities (run (start None Neural) (map (Pair GetMetrics) ex_ticks))) \<le> 20
   \<and> snd (handle (run (start None Neural) (map (Pair GetMetrics) ex_ticks))
            (GetActivities, ex_clock)) =
       \<lparr>status = 200,
        body = JObj [(''activities'',
                      JArr (map (\<lambda>c. JObj [(''type'', JStr ''metrics-served''),
                                            (''timestamp'', JNum (of_int (now c)))])
                                (rev (drop 5 ex_ticks))))]\<rparr>"
  using activity_log_bounded
    [of None Neural "map (Pair GetMetrics) ex_ticks" "''metrics-served''" None 20 ex_full_log
        ex_ticks ex_clock]
  by (simp add: ex_ticks_def ex_full_log_def mk_record_no_payload)

text \<open>
  Claim C5 says that the record stored by \<^verbatim>\<open>POST /optimize\<close> has a payload equal to
  the body. For the body \<^verbatim>\<open>{"foo":1}\<close> on a fresh affiliate bridge the stored record
  is \<^verbatim>\<open>{ type: "optimize-triggered", foo: 1, timestamp }\<close>: it has no field
  \<^verbatim>\<open>payload\<close> at all.
\<close>

theorem optimize_payload_counterexample:
  "activities (fst (serve (start None Affiliate) Optimize (JsonText ex_foo) ex_clock)) =
     [JObj [(''type'', JStr ''optimize-triggered''), (''foo'', JNum 1),
            (''timestamp'', JNum 1753036819777)]]
   \<and> field (JObj [(''type'', JStr ''optimize-triggered''), (''foo'', JNum 1),
                  (''timestamp'', JNum 1753036819777)]) ''payload'' = None
   \<and> field (JObj [(''type'', JStr ''optimize-triggered''), (''foo'', JNum 1),
                  (''timestamp'', JNum 1753036819777)]) ''payload'' \<noteq> Some ex_foo"
  by (simp add: serve_def express_json_def to_handler_def post_optimize_def addActivity_def
        start_def ex_foo_def ex_clock_def eval_record to_double_one)

text \<open>
  Claim C5, as the service behaves. A JSON body \<open>B\<close> reaches the handler of
  \<^verbatim>\<open>POST /optimize\<close> only if it is an object or an array; a string, a number, a
  boolean or \<^verbatim>\<open>null\<close> is refused with status 400, a body beyond the size limit of
  the parser with 413, and nothing is stored. For an object or an array \<open>B\<close> within
  the limit the service puts one new record in front of the log, which is then cut to
  20, and answers \<^verbatim>\<open>{ success: true, message }\<close> with the
  confirmation of its domain. The record carries the properties of \<open>B\<close> at its top
  level: every property of \<open>B\<close> other than \<^verbatim>\<open>timestamp\<close> is a field of the record,
  with the value that \<open>B\<close> gives it, as parsed; the type of the record is
  \<^verbatim>\<open>"optimize-triggered"\<close> when \<open>B\<close> has no property \<^verbatim>\<open>type\<close>; and the record has a
  field \<^verbatim>\<open>payload\<close> only if \<open>B\<close> has one.
\<close>

theorem optimize_spreads_body:
  "(structured B \<longrightarrow>
      serve s Optimize (JsonText B) c =
        (s\<lparr>activities :=
             take 20 (mk_record ''optimize-triggered'' (Some (JSON_parse B)) (now c)
                      # activities s)\<rparr>,
         Reply \<lparr>status = 200,
                body = JObj [(''success'', JBool True),
                             (''message'', JStr (optimize_message (bridge s)))]\<rparr>)
      \<and> (\<forall>k v. lookup (own_entries B) k = Some v \<and> k \<noteq> ''timestamp''
            \<longrightarrow> field (mk_record ''optimize-triggered'' (Some (JSON_parse B)) (now c)) k
                  = Some (JSON_parse v))
      \<and> (lookup (own_entries B) ''type'' = None
            \<longrightarrow> field (mk_record ''optimize-triggered'' (Some (JSON_parse B)) (now c)) ''type''
                  = Some (JStr ''optimize-triggered''))
      \<and> field (mk_record ''optimize-triggered'' (Some (JSON_parse B)) (now c)) ''payload''
            = map_option JSON_parse (lookup (own_entries B) ''payload''))
   \<and> (\<not> structured B \<longrightarrow> serve s Optimize (JsonText B) c = (s, ErrorPage 400))
   \<and> serve s Optimize TooLarge c = (s, ErrorPage 413)"
proof -
  have accepted: "serve s Optimize (JsonText B) c =
        (s\<lparr>activities :=
             take 20 (mk_record ''optimize-triggered'' (Some (JSON_parse B)) (now c)
                      # activities s)\<rparr>,
         Reply \<lparr>status = 200,
                body = JObj [(''success'', JBool True),
                             (''message'', JStr (optimize_message (bridge s)))]\<rparr>)"
    if "structured B"
    using that
    by (simp add: serve_def express_json_def to_handler_def post_optimize_def addActivity_take
          del: JSON_parse.simps)
  have refused: "serve s Optimize (JsonText B) c = (s, ErrorPage 400)" if "\<not> structured B"
    using that by (simp add: serve_def express_json_def)
  have fields: "field (mk_record ''optimize-triggered'' (Some (JSON_parse B)) (now c)) k =
       (if k = ''timestamp'' then Some (JNum (of_int (now c)))
        else case map_option JSON_parse (lookup (own_entries B) k) of
               Some v \<Rightarrow> Some v
             | None \<Rightarrow> if k = ''type'' then Some (JStr ''optimize-triggered'') else None)"
    if "structured B" for k
    using that by (simp add: field_mk_record own_entries_parse del: JSON_parse.simps)
  have large: "serve s Optimize TooLarge c = (s, ErrorPage 413)"
    by (simp add: serve_def express_json_def)
  show ?thesis
    using accepted refused fields large by (simp split: option.splits del: JSON_parse.simps)
qed

text \<open>
  The same for the body \<^verbatim>\<open>{"campaign":"X"}\<close> sent to a fresh affiliate bridge, and
  for a body that is a JSON string.
\<close>

theorem optimize_spreads_body_witness:
  "structured ex_campaign
   \<and> lookup (own_entries ex_campaign) ''campaign'' = Some (JStr ''X'')
   \<and> lookup (own_entries ex_campaign) ''type'' = None
   \<and> serve (start None Affiliate) Optimize (JsonText ex_campaign) ex_clock =
       (\<lparr>bridge = Affiliate, port = PortDefault 3002,
         activities = [JObj [(''type'', JStr ''optimize-triggered''), (''campaign'', JStr ''X''),
                             (''timestamp'', JNum 1753036819777)]]\<rparr>,
        Reply \<lparr>status = 200,
               body = JObj [(''success'', JBool True),
                            (''message'', JStr ''Affiliate optimization started!'')]\<rparr>)
   \<and> field (JObj [(''type'', JStr ''optimize-triggered''), (''campaign'', JStr ''X''),
                  (''timestamp'', JNum 1753036819777)]) ''campaign'' = Some (JStr ''X'')
   \<and> field (JObj [(''type'', JStr ''optimize-triggered''), (''campaign'', JStr ''X''),
                  (''timestamp'', JNum 1753036819777)]) ''payload'' = None
   \<and> \<not> structured (JStr ''ab'')
   \<and> serve (start None Affiliate) Optimize (JsonText (JStr ''ab'')) ex_clock =
       (start None Affiliate, ErrorPage 400)"
  using optimize_spreads_body [of ex_campaign "start None Affiliate" ex_clock]
        optimize_spreads_body [of "JStr ''ab''" "start None Affiliate" ex_clock]
  by (simp add: ex_campaign_def ex_clock_def start_def PORT_def default_port_def
        optimize_message_def eval_record)

text \<open>
  Claim C6. \<^verbatim>\<open>GET /activities\<close> returns the current log as it is and leaves the
  whole state of the service unchanged; and the log of a service is ordered newest
  first: after any sequence of requests it is the history of the records created, most
  recent first, cut to 20.
\<close>

theorem activities_newest_first:
  "handle s (GetActivities, c) =
     (s, \<lparr>status = 200, body = JObj [(''activities'', JArr (activities s))]\<rparr>)
   \<and> activities (run (start env d) rs) = take 20 (rev (history rs))"
proof -
  have "length (activities (start env d)) \<le> 20"
    by (simp add: start_def)
  then have "activities (run (start env d) rs) = take 20 (rev (history rs) @ [])"
    using activities_run [of "start env d" rs] by (simp add: start_def)
  then show ?thesis
    by (simp add: get_activities_def)
qed

text \<open>
  C6 on a fresh affiliate bridge after a metrics call followed by an optimize call: the
  record of the later call comes first.
\<close>

theorem activities_newest_first_witness:
  "activities (run (start None Affiliate)
       [(GetMetrics, ex_clock), (PostOptimize (Some ex_campaign), ex_clock)]) =
     [JObj [(''type'', JStr ''optimize-triggered''), (''campaign'', JStr ''X''),
            (''timestamp'', JNum 1753036819777)],
      JObj [(''type'', JStr ''metrics-served''), (''timestamp'', JNum 1753036819777)]]"
  using activities_newest_first
    [of "start None Affiliate" ex_clock None Affiliate
        "[(GetMetrics, ex_clock), (PostOptimize (Some ex_campaign), ex_clock)]"]
  by (simp add: ex_campaign_def ex_clock_def eval_record)

text \<open>
  Claim C9 says that the stored record never has a field \<^verbatim>\<open>payload\<close>. The body
  \<^verbatim>\<open>{"payload":1}\<close> has a property of that name, and the spread copies it: the
  stored record has the field \<^verbatim>\<open>payload\<close> with value 1.
\<close>

theorem record_no_payload_field_counterexample:
  "activities (fst (post_optimize (Some ex_payload) ex_clock (start None Neural))) =
     [JObj [(''type'', JStr ''optimize-triggered''), (''payload'', JNum 1),
            (''timestamp'', JNum 1753036819777)]]
   \<and> field (JObj [(''type'', JStr ''optimize-triggered''), (''payload'', JNum 1),
                  (''timestamp'', JNum 1753036819777)]) ''payload'' = Some (JNum 1)"
  by (simp add: post_optimize_def addActivity_def start_def ex_payload_def ex_clock_def eval_record)

text \<open>
  Claim C9, as the handler behaves. For every body \<open>B\<close> of \<^verbatim>\<open>POST /optimize\<close> the
  stored record is \<^verbatim>\<open>{ type, ...B, timestamp }\<close>, the properties of \<open>B\<close> spread at
  top level: its field \<^verbatim>\<open>timestamp\<close> is the insertion time even when \<open>B\<close> has a
  property \<^verbatim>\<open>timestamp\<close>; every other field that \<open>B\<close> has is a field of the record
  with the value of \<open>B\<close>, so a property \<^verbatim>\<open>type\<close> of \<open>B\<close> replaces
  \<^verbatim>\<open>"optimize-triggered"\<close>; and the record has no further field, so it has a field
  \<^verbatim>\<open>payload\<close> only if \<open>B\<close> has one.
\<close>

theorem record_is_spread:
  "activities (fst (post_optimize (Some B) c s)) =
     take 20 (mk_record ''optimize-triggered'' (Some B) (now c) # activities s)
   \<and> field (mk_record ''optimize-triggered'' (Some B) (now c)) k =
       (if k = ''timestamp'' then Some (JNum (of_int (now c)))
        else case lookup (own_entries B) k of
               Some v \<Rightarrow> Some v
             | None \<Rightarrow> if k = ''type'' then Some (JStr ''optimize-triggered'') else None)"
  by (simp add: post_optimize_def addActivity_take field_mk_record)

text \<open>
  The same for a body that has properties \<^verbatim>\<open>type\<close> and \<^verbatim>\<open>timestamp\<close> of its
  own.
\<close>

theorem record_is_spread_witness:
  "field (mk_record ''optimize-triggered'' (Some ex_override) (now ex_clock)) ''type''
     = Some (JStr ''mine'')
   \<and> field (mk_record ''optimize-triggered'' (Some ex_override) (now ex_clock)) ''timestamp''
     = Some (JNum 1753036819777)
   \<and> field (mk_record ''optimize-triggered'' (Some ex_override) (now ex_clock)) ''payload''
     = None"
  using record_is_spread [of ex_override ex_clock "start None Neural" "''type''"]
        record_is_spread [of ex_override ex_clock "start None Neural" "''timestamp''"]
        record_is_spread [of ex_override ex_clock "start None Neural" "''payload''"]
  by (simp add: ex_override_def ex_clock_def lookup_def)

section \<open>Client fetch adapter: claims C7, C8, C10\<close>

text \<open>
  Claim C7. Whenever the invocation fails, by a rejection of the fetch, by a status
  outside 200 to 299, or by a body on which \<^verbatim>\<open>res.json()\<close> rejects (and also when
  \<^verbatim>\<open>encodeURIComponent\<close> throws before any request), the final state of the adapter has
  \<^verbatim>\<open>data === null\<close>, an error that is not \<^verbatim>\<open>null\<close> (the message of the error
  thrown) and \<^verbatim>\<open>loading === false\<close>, and the error is thrown again to the caller.
\<close>

theorem adapter_failure_state:
  assumes "encodeURIComponent target = Inl e
         \<or> (\<exists>enc. encodeURIComponent target = Inr enc
               \<and> (net (''/api/universal?target='' @ enc) opts = Rejected e
                  \<or> (\<exists>st b. net (''/api/universal?target='' @ enc) opts = Responded st b
                            \<and> \<not> ok st \<and> e = JsError ''Error'' ''API error'')
                  \<or> (\<exists>st. net (''/api/universal?target='' @ enc) opts
                              = Responded st (BodyError e) \<and> ok st)))"
  shows "data (fst (fetchUniversal net target opts s)) = JNull
       \<and> error (fst (fetchUniversal net target opts s)) = Some (message e)
       \<and> error (fst (fetchUniversal net target opts s)) \<noteq> None
       \<and> loading (fst (fetchUniversal net target opts s)) = False
       \<and> snd (fetchUniversal net target opts s) = Throws e"
  using assms by (auto simp add: fetchUniversal_eqs)

text \<open>
  C7 against a gateway that answers 500.
\<close>

theorem adapter_failure_state_witness:
  "encodeURIComponent ex_target = Inr ''neural%2Fmetrics''
   \<and> browser_500 ''/api/universal?target=neural%2Fmetrics'' None =
       Responded 500 (BodyJson (JObj [(''detail'', JStr ''boom'')]))
   \<and> \<not> ok 500
   \<and> fetchUniversal browser_500 ex_target None useState_init =
       (\<lparr>loading = False, error = Some ''API error'', data = JNull\<rparr>,
        Throws (JsError ''Error'' ''API error''))"
  using adapter_failure_state
    [of ex_target "JsError ''Error'' ''API error''" browser_500 None useState_init]
  by (simp add: encode_ex_target browser_500_def ok_def useState_init_def
        fetchUniversal_def try_block_def Let_def)

text \<open>
  Claim C8. Every invocation that finishes, by returning or by throwing, leaves
  \<^verbatim>\<open>loading\<close> cleared. An invocation does finish unless the fetch never settles or
  the body of a response with a status in 200 to 299 is never read to its end.
\<close>

theorem adapter_loading_cleared:
  "(snd (fetchUniversal net target opts s) \<noteq> Pending
      \<longrightarrow> loading (fst (fetchUniversal net target opts s)) = False)
   \<and> (snd (fetchUniversal net target opts s) = Pending
      \<longleftrightarrow> (\<exists>enc. encodeURIComponent target = Inr enc
               \<and> (net (''/api/universal?target='' @ enc) opts = NeverSettles
                  \<or> (\<exists>st. ok st
                        \<and> net (''/api/universal?target='' @ enc) opts
                            = Responded st BodyNeverSettles))))"
proof (cases "encodeURIComponent target")
  case (Inl e)
  then show ?thesis by (simp add: fetchUniversal_URIError)
next
  case (Inr enc)
  show ?thesis
  proof (cases "net (''/api/universal?target='' @ enc) opts")
    case (Rejected e)
    with Inr show ?thesis by (simp add: fetchUniversal_Rejected)
  next
    case (Responded st b)
    with Inr show ?thesis
      by (cases "ok st"; cases b) (auto simp add: fetchUniversal_eqs)
  next
    case NeverSettles
    with Inr show ?thesis by (simp add: fetchUniversal_NeverSettles)
  qed
qed

text \<open>
  C8 on a response whose body does not parse; beside it, a fetch that never settles,
  which leaves the invocation unfinished.
\<close>

theorem adapter_loading_cleared_witness:
  "snd (fetchUniversal browser_bad_json ex_target None useState_init) \<noteq> Pending
   \<and> loading (fst (fetchUniversal browser_bad_json ex_target None useState_init)) = False
   \<and> snd (fetchUniversal browser_hung ex_target None useState_init) = Pending"
  using adapter_loading_cleared [of browser_bad_json ex_target None useState_init]
  by (simp add: encode_ex_target browser_bad_json_def browser_hung_def ok_def
        fetchUniversal_def try_block_def Let_def)

text \<open>
  Claim C10 says that only a parse or network failure gives the error state a message
  other than \<^verbatim>\<open>"API error"\<close>. A target with a lone surrogate makes
  \<^verbatim>\<open>encodeURIComponent\<close> throw inside the \<^verbatim>\<open>try\<close>: against a gateway that answers
  every request with status 200 and a JSON body, the error state is
  \<^verbatim>\<open>"URI malformed"\<close>.
\<close>

theorem adapter_only_parse_or_network_counterexample:
  "fetchUniversal browser_ok ex_lone_surrogate None useState_init =
     (\<lparr>loading = False, error = Some ''URI malformed'', data = JNull\<rparr>,
      Throws (JsError ''URIError'' ''URI malformed''))
   \<and> ''URI malformed'' \<noteq> ''API error''"
  by (simp add: encode_ex_lone_surrogate URIError_def useState_init_def
        fetchUniversal_def try_block_def Let_def)

text \<open>
  Claim C10, as the adapter behaves. For every response with a status outside 200 to
  299 the error state is the fixed string \<^verbatim>\<open>"API error"\<close>, whatever the status and
  the body. An error state with any other message is the message of the error of a
  rejected fetch, of a body that failed to parse, or of \<^verbatim>\<open>encodeURIComponent\<close>, which
  throws on a target with a lone surrogate, before any request, and then always a
  \<^verbatim>\<open>URIError\<close>.
\<close>

theorem adapter_api_error_message:
  "(\<forall>enc st b. encodeURIComponent target = Inr enc
              \<and> net (''/api/universal?target='' @ enc) opts = Responded st b \<and> \<not> ok st
      \<longrightarrow> error (fst (fetchUniversal net target opts s)) = Some ''API error'')
   \<and> (\<forall>m. error (fst (fetchUniversal net target opts s)) = Some m \<and> m \<noteq> ''API error''
      \<longrightarrow> (\<exists>e. message e = m
              \<and> (encodeURIComponent target = Inl e
                 \<or> (\<exists>enc. encodeURIComponent target = Inr enc
                       \<and> (net (''/api/universal?target='' @ enc) opts = Rejected e
                          \<or> (\<exists>st. ok st
                                \<and> net (''/api/universal?target='' @ enc) opts
                                    = Responded st (BodyError e)))))))
   \<and> (\<forall>e. encodeURIComponent target = Inl e \<longrightarrow> err_name e = ''URIError'')"
proof (cases "encodeURIComponent target")
  case (Inl e)
  then show ?thesis
    using encodeURIComponent_error [of target e]
    by (auto simp add: fetchUniversal_URIError URIError_def)
next
  case (Inr enc)
  show ?thesis
  proof (cases "net (''/api/universal?target='' @ enc) opts")
    case (Rejected e)
    with Inr show ?thesis by (auto simp add: fetchUniversal_Rejected)
  next
    case (Responded st b)
    with Inr show ?thesis
      by (cases "ok st"; cases b) (auto simp add: fetchUniversal_eqs)
  next
    case NeverSettles
    with Inr show ?thesis by (simp add: fetchUniversal_NeverSettles)
  qed
qed

text \<open>
  C10 for a status 500, beside the messages left by a body that does not parse and by
  a target with a lone surrogate.
\<close>

theorem adapter_api_error_message_witness:
  "encodeURIComponent ex_target = Inr ''neural%2Fmetrics''
   \<and> \<not> ok 500
   \<and> error (fst (fetchUniversal browser_500 ex_target None useState_init))
       = Some ''API error''
   \<and> error (fst (fetchUniversal browser_bad_json ex_target None useState_init))
       = Some ''Unexpected end of JSON input''
   \<and> encodeURIComponent ex_lone_surrogate = Inl (JsError ''URIError'' ''URI malformed'')
   \<and> error (fst (fetchUniversal browser_ok ex_lone_surrogate None useState_init))
       = Some ''URI malformed''"
proof -
  have "encodeURIComponent ex_target = Inr ''neural%2Fmetrics''
        \<and> browser_500 (''/api/universal?target='' @ ''neural%2Fmetrics'') None =
            Responded 500 (BodyJson (JObj [(''detail'', JStr ''boom'')]))
        \<and> \<not> ok 500
        \<longrightarrow> error (fst (fetchUniversal browser_500 ex_target None useState_init))
            = Some ''API error''"
    using adapter_api_error_message [of ex_target browser_500 None useState_init] by blast
  then have api: "error (fst (fetchUniversal browser_500 ex_target None useState_init))
                    = Some ''API error''"
    by (simp add: encode_ex_target browser_500_def ok_def)
  have parse: "error (fst (fetchUniversal browser_bad_json ex_target None useState_init))
                 = Some ''Unexpected end of JSON input''"
    by (simp add: encode_ex_target browser_bad_json_def ok_def fetchUniversal_def
          try_block_def Let_def)
  have uri: "error (fst (fetchUniversal browser_ok ex_lone_surrogate None useState_init))
               = Some ''URI malformed''"
    by (simp add: encode_ex_lone_surrogate URIError_def fetchUniversal_def try_block_def Let_def)
  show ?thesis
    using api parse uri by (simp add: encode_ex_target encode_ex_lone_surrogate URIError_def ok_def)
qed

end
